theory Spec2Isabelle
  imports Main "HOL-Library.Multiset"
begin

section \<open>JavaScript values used by the client\<close>

text \<open>
  A TypeScript type \<open>T | undefined\<close> is \<open>T undef\<close>; \<open>T | null\<close> is \<open>T option\<close>
  with \<open>None\<close> for \<open>null\<close>. So \<open>ISubmission | null | undefined\<close> is
  \<open>ISubmission option undef\<close>.
\<close>

datatype 'a undef = Undefined | Defined 'a

text \<open>
  A \<open>Date\<close> object holds a time value: an integral number of milliseconds since the
  epoch, or NaN for an invalid date (\<open>new Date("")\<close>).
\<close>

datatype Date = Invalid_Date | Time_Value int

text \<open>\<open>Date.prototype.getTime\<close>: \<open>None\<close> stands for NaN.\<close>

fun getTime :: "Date \<Rightarrow> int option" where
  "getTime Invalid_Date = None"
| "getTime (Time_Value t) = Some t"

text \<open>
  The relational operators on two dates compare their time values as numbers; a
  comparison with NaN is false.
\<close>

definition date_le :: "Date \<Rightarrow> Date \<Rightarrow> bool" where
  "date_le d e =
     (case (getTime d, getTime e) of (Some s, Some t) \<Rightarrow> s \<le> t | _ \<Rightarrow> False)"

definition date_ge :: "Date \<Rightarrow> Date \<Rightarrow> bool" where
  "date_ge d e =
     (case (getTime d, getTime e) of (Some s, Some t) \<Rightarrow> s \<ge> t | _ \<Rightarrow> False)"

text \<open>
  \<open>Array.prototype.sort(comparefn)\<close>. The comparator returns \<open>None\<close> for NaN, which
  SortCompare counts as \<open>+0\<close>.
\<close>

definition SortCompare :: "('a \<Rightarrow> 'a \<Rightarrow> int option) \<Rightarrow> 'a \<Rightarrow> 'a \<Rightarrow> int" where
  "SortCompare comparefn x y = (case comparefn x y of None \<Rightarrow> 0 | Some v \<Rightarrow> v)"

text \<open>
  A comparator is consistent for the values of an array (ECMAScript,
  \<open>Array.prototype.sort\<close>) when no result is NaN, being equal under it is reflexive,
  symmetric and transitive, and being less and being greater are transitive.
\<close>

definition consistent :: "('a \<Rightarrow> 'a \<Rightarrow> int option) \<Rightarrow> 'a list \<Rightarrow> bool" where
  "consistent comparefn xs =
     (list_all (\<lambda>a. list_all (\<lambda>b. comparefn a b \<noteq> None) xs) xs \<and>
      list_all (\<lambda>a. SortCompare comparefn a a = 0) xs \<and>
      list_all (\<lambda>a. list_all (\<lambda>b.
         SortCompare comparefn a b = 0 \<longrightarrow> SortCompare comparefn b a = 0) xs) xs \<and>
      list_all (\<lambda>a. list_all (\<lambda>b. list_all (\<lambda>c.
         (SortCompare comparefn a b = 0 \<and> SortCompare comparefn b c = 0 \<longrightarrow>
            SortCompare comparefn a c = 0) \<and>
         (SortCompare comparefn a b < 0 \<and> SortCompare comparefn b c < 0 \<longrightarrow>
            SortCompare comparefn a c < 0) \<and>
         (SortCompare comparefn a b > 0 \<and> SortCompare comparefn b c > 0 \<longrightarrow>
            SortCompare comparefn a c > 0)) xs) xs) xs)"

text \<open>
  For a consistent comparator the result is fixed: the array in ascending order of the
  comparator, equal values in their former order. It is computed here by insertion.
\<close>

fun sort_insert :: "('a \<Rightarrow> 'a \<Rightarrow> int option) \<Rightarrow> 'a \<Rightarrow> 'a list \<Rightarrow> 'a list" where
  "sort_insert comparefn x [] = [x]"
| "sort_insert comparefn x (y # ys) =
     (if SortCompare comparefn x y \<le> 0 then x # y # ys
      else y # sort_insert comparefn x ys)"

fun stable_sort :: "('a \<Rightarrow> 'a \<Rightarrow> int option) \<Rightarrow> 'a list \<Rightarrow> 'a list" where
  "stable_sort comparefn [] = []"
| "stable_sort comparefn (x # xs) = sort_insert comparefn x (stable_sort comparefn xs)"

text \<open>
  For any other comparator the order is implementation-defined: the result is a
  permutation of the array that the engine chooses. The engine's choice is the parameter
  \<open>engine\<close>; a parameter that does not permute the array stands for the engine that
  leaves it as it is. The array is sorted in place: the caller stores the result back into
  the array it sorted.
\<close>

definition Array_sort ::
  "(('a \<Rightarrow> 'a \<Rightarrow> int option) \<Rightarrow> 'a list \<Rightarrow> 'a list) \<Rightarrow>
   ('a \<Rightarrow> 'a \<Rightarrow> int option) \<Rightarrow> 'a list \<Rightarrow> 'a list" where
  "Array_sort engine comparefn xs =
     (if consistent comparefn xs then stable_sort comparefn xs
      else if mset (engine comparefn xs) = mset xs then engine comparefn xs
      else xs)"


section \<open>Domain entities (src/api/assignment.ts)\<close>

text \<open>
  \<open>ISubmission\<close> is declared in \<open>./submission\<close>; the assignment reads only its
  \<open>submissionTime\<close>. The remaining fields are the parameter \<open>'p\<close>.
\<close>

record 'p ISubmission =
  submissionTime :: Date
  otherFields :: 'p

text \<open>
  The class \<open>Assignment\<close>: one field per private constructor parameter, named as its
  getter (\<open>ident\<close> is the field \<open>_id\<close>).
\<close>

record 'p Assignment =
  ident :: int
  name :: string
  directoryPath :: string
  absoluteDirectoryPath :: string
  createdDate :: Date
  adjustedAvailableDate :: "Date option"
  adjustedDueDate :: "Date option"
  lastModifiedDate :: Date
  isDeferred :: bool
  isExtended :: bool
  isCreated :: bool
  isAvailable :: bool
  isClosed :: bool
  submissions :: "'p ISubmission list undef"

text \<open>The comparator \<open>(a, b) => b.submissionTime.getTime() - a.submissionTime.getTime()\<close>.\<close>

definition newestFirst :: "'p ISubmission \<Rightarrow> 'p ISubmission \<Rightarrow> int option" where
  "newestFirst a b =
     (case (getTime (submissionTime b), getTime (submissionTime a)) of
        (Some tb, Some ta) \<Rightarrow> Some (tb - ta)
      | _ \<Rightarrow> None)"

text \<open>
  The getter \<open>activeSubmission\<close>, on an engine whose sort is \<open>Array_sort engine\<close>. It
  returns its value together with the object as the getter leaves it: \<open>sort\<close> works on
  the array \<open>this._submissions\<close> itself. Indexing an array at 0 gives \<open>undefined\<close> when
  the array is empty.
\<close>

definition activeSubmission ::
  "(('p ISubmission \<Rightarrow> 'p ISubmission \<Rightarrow> int option) \<Rightarrow> 'p ISubmission list \<Rightarrow>
      'p ISubmission list) \<Rightarrow>
   'p Assignment \<Rightarrow> 'p ISubmission option undef \<times> 'p Assignment" where
  "activeSubmission engine this =
     (case submissions this of
        Undefined \<Rightarrow> (Undefined, this)
      | Defined subs \<Rightarrow>
          if length subs = 0 then (Defined None, this)
          else
            (let sorted = Array_sort engine newestFirst subs
             in (case sorted of [] \<Rightarrow> Undefined | s # _ \<Rightarrow> Defined (Some s),
                 this\<lparr>submissions := Defined sorted\<rparr>)))"

text \<open>Every submission time of a list is a valid date.\<close>

definition validTimes :: "'p ISubmission list \<Rightarrow> bool" where
  "validTimes subs = list_all (\<lambda>s. submissionTime s \<noteq> Invalid_Date) subs"

text \<open>
  The time value of a submission whose date is valid (an invalid date, which has none,
  is given 0; the proofs read \<open>timeOf\<close> of valid dates only).
\<close>

fun timeOf :: "'p ISubmission \<Rightarrow> int" where
  "timeOf s = (case submissionTime s of Invalid_Date \<Rightarrow> 0 | Time_Value t \<Rightarrow> t)"

text \<open>The head of a list is a newest submission of it.\<close>

definition newestAtHead :: "'p ISubmission list \<Rightarrow> bool" where
  "newestAtHead xs = (case xs of [] \<Rightarrow> True | s # r \<Rightarrow> list_all (\<lambda>t. timeOf t \<le> timeOf s) r)"


section \<open>Construction from a server response (\<open>Assignment.fromResponse\<close>)\<close>

text \<open>
  \<open>AssignmentResponse\<close> is declared in \<open>./api-responses\<close>; its fields are the ones
  \<open>fromResponse\<close> reads (\<open>id_json\<close>, \<open>name_json\<close> and \<open>submissions_json\<close> are the
  wire fields \<open>id\<close>, \<open>name\<close> and \<open>submissions\<close>). A date travels as a string; the two
  adjusted dates may be \<open>null\<close>, and \<open>submissions\<close> may be absent.
\<close>

record 'r AssignmentResponse =
  id_json :: int
  name_json :: string
  directory_path :: string
  absolute_directory_path :: string
  created_date :: string
  adjusted_available_date :: "string option"
  adjusted_due_date :: "string option"
  last_modified_date :: string
  is_deferred :: bool
  is_extended :: bool
  is_created :: bool
  is_available :: bool
  is_closed :: bool
  submissions_json :: "'r list undef"

text \<open>Truthiness of a \<open>string | null\<close>: \<open>null\<close> and the empty string are falsy.\<close>

definition truthy :: "string option \<Rightarrow> bool" where
  "truthy v = (case v of None \<Rightarrow> False | Some s \<Rightarrow> s \<noteq> [])"

text \<open>
  \<open>fromResponse\<close>. The date parser \<open>new Date(string)\<close> and \<open>Submission.fromResponse\<close>
  (declared in \<open>./submission\<close>) are parameters.
\<close>

definition fromResponse ::
  "(string \<Rightarrow> Date) \<Rightarrow> ('r \<Rightarrow> 'p ISubmission) \<Rightarrow> 'r AssignmentResponse \<Rightarrow> 'p Assignment" where
  "fromResponse new_Date Submission_fromResponse data =
     \<lparr> ident = id_json data,
       name = name_json data,
       directoryPath = directory_path data,
       absoluteDirectoryPath = absolute_directory_path data,
       createdDate = new_Date (created_date data),
       adjustedAvailableDate =
         (if truthy (adjusted_available_date data)
          then map_option new_Date (adjusted_available_date data) else None),
       adjustedDueDate =
         (if truthy (adjusted_due_date data)
          then map_option new_Date (adjusted_due_date data) else None),
       lastModifiedDate = new_Date (last_modified_date data),
       isDeferred = is_deferred data,
       isExtended = is_extended data,
       isCreated = is_created data,
       isAvailable = is_available data,
       isClosed = is_closed data,
       submissions =
         (case submissions_json data of
            Undefined \<Rightarrow> Undefined
          | Defined rs \<Rightarrow> Defined (map Submission_fromResponse rs)) \<rparr>"

text \<open>The dates of an assignment are ordered: both are set and due is not before available.\<close>

definition datesOrdered :: "'p Assignment \<Rightarrow> bool" where
  "datesOrdered a =
     (case (adjustedAvailableDate a, adjustedDueDate a) of
        (Some available, Some due) \<Rightarrow> date_ge due available
      | _ \<Rightarrow> False)"

text \<open>The relation between the facets and the dates that the data model describes.\<close>

definition facetsConsistent :: "'p Assignment \<Rightarrow> bool" where
  "facetsConsistent a =
     ((isClosed a \<longrightarrow> isAvailable a) \<and> (isAvailable a \<longrightarrow> isCreated a) \<and>
      (isCreated a \<longleftrightarrow> adjustedAvailableDate a \<noteq> None \<and> adjustedDueDate a \<noteq> None))"

text \<open>The same relation on the wire: the flags and date strings the server sent.\<close>

definition responseConsistent :: "'r AssignmentResponse \<Rightarrow> bool" where
  "responseConsistent data =
     ((is_closed data \<longrightarrow> is_available data) \<and> (is_available data \<longrightarrow> is_created data) \<and>
      (is_created data \<longleftrightarrow>
         truthy (adjusted_available_date data) \<and> truthy (adjusted_due_date data)))"

text \<open>
  The values of \<open>new Date(s)\<close> at two ISO strings, for concrete responses; any other
  string is left unparsed.
\<close>

definition new_Date_sample :: "string \<Rightarrow> Date" where
  "new_Date_sample s =
     (if s = ''2024-01-01T00:00:00Z'' then Time_Value 1704067200000
      else if s = ''2024-01-02T00:00:00Z'' then Time_Value 1704153600000
      else Invalid_Date)"

text \<open>
  A response whose dates are set and ordered, flagged closed but not available.
\<close>

definition closedNotAvailable :: "unit AssignmentResponse" where
  "closedNotAvailable =
     \<lparr> id_json = 1, name_json = ''hw1'', directory_path = ''hw1'',
       absolute_directory_path = ''/home/student/hw1'',
       created_date = ''2024-01-01T00:00:00Z'',
       adjusted_available_date = Some ''2024-01-01T00:00:00Z'',
       adjusted_due_date = Some ''2024-01-02T00:00:00Z'',
       last_modified_date = ''2024-01-01T00:00:00Z'',
       is_deferred = False, is_extended = False,
       is_created = True, is_available = False, is_closed = True,
       submissions_json = Undefined \<rparr>"

text \<open>A response that satisfies the relation: created, available, not closed.\<close>

definition openResponse :: "unit AssignmentResponse" where
  "openResponse = closedNotAvailable\<lparr>is_available := True, is_closed := False\<rparr>"


section \<open>Notifications and promises\<close>

text \<open>\<open>snackbar.open({ type, message })\<close> appends to the notifications shown.\<close>

datatype snack_type = Success | Warning | Error

record snack =
  snack_type :: snack_type
  message :: string

text \<open>Every component below holds the snackbar context.\<close>

record ui =
  snackbar :: "snack list"

definition snackbar_open :: "snack_type \<Rightarrow> string \<Rightarrow> snack list \<Rightarrow> snack list" where
  "snackbar_open t m shown = shown @ [\<lparr>snack_type = t, message = m\<rparr>]"

text \<open>How an awaited promise settles.\<close>

datatype ('e, 'v) settled = Rejected 'e | Resolved 'v


section \<open>The assignment poll effect (\<open>AssignmentProvider\<close>)\<close>

text \<open>The result of \<open>getAssignments\<close>.\<close>

record 'a GetAssignmentsResponse =
  response_assignments :: "'a list option"
  response_currentAssignment :: "'a option"

text \<open>
  The state slots of the provider that the poll effect writes: \<open>assignments\<close> and
  \<open>currentAssignment\<close> (\<open>undefined\<close> until fetched).
\<close>

record 'a provider = ui +
  assignments :: "'a list option undef"
  currentAssignment :: "'a option undef"

text \<open>
  One run of the effect makes a closure: the \<open>currentPath\<close> it was run for, its
  variable \<open>cancelled\<close>, and the timers \<open>setTimeout(poll, 2500)\<close> of its \<open>poll\<close> that
  have not fired yet.
\<close>

record poller =
  currentPath :: "string option"
  cancelled :: bool
  pending :: nat

text \<open>The effect body: both slots are reset and the first poll is scheduled.\<close>

definition poll_effect :: "string option \<Rightarrow> 'a provider \<Rightarrow> poller \<times> 'a provider" where
  "poll_effect path st =
     (\<lparr>currentPath = path, cancelled = False, pending = 1\<rparr>,
      st\<lparr>assignments := Undefined, currentAssignment := Undefined\<rparr>)"

text \<open>The cleanup the effect returns.\<close>

definition poll_effect_cleanup :: "poller \<Rightarrow> poller" where
  "poll_effect_cleanup pl = pl\<lparr>cancelled := True\<rparr>"

text \<open>
  A change of \<open>currentPath\<close>: the cleanup of the previous run, then the effect body for
  the new path. The result is the previous closure, the new one and the state.
\<close>

definition currentPath_changed ::
  "string option \<Rightarrow> poller \<Rightarrow> 'a provider \<Rightarrow> poller \<times> poller \<times> 'a provider" where
  "currentPath_changed newPath old st =
     (poll_effect_cleanup old, fst (poll_effect newPath st), snd (poll_effect newPath st))"

text \<open>
  \<open>poll\<close> up to the end of its \<open>try\<close>: the \<open>value\<close>, and the warning of the
  \<open>catch\<close>. With no path nothing is fetched.
\<close>

definition poll_fetch ::
  "poller \<Rightarrow> ('e, 'a GetAssignmentsResponse) settled \<Rightarrow> 'a provider \<Rightarrow>
   'a GetAssignmentsResponse undef \<times> 'a provider" where
  "poll_fetch pl outcome st =
     (case currentPath pl of
        None \<Rightarrow> (Undefined, st)
      | Some path \<Rightarrow>
          (case outcome of
             Resolved v \<Rightarrow> (Defined v, st)
           | Rejected e \<Rightarrow>
               (Undefined,
                st\<lparr>snackbar := snackbar_open Warning ''Failed to pull assignments...'' (snackbar st)\<rparr>)))"

text \<open>
  \<open>poll\<close> from \<open>if (cancelled) return\<close>: the slots are written and the next poll is
  scheduled.
\<close>

definition poll_write ::
  "'a GetAssignmentsResponse undef \<Rightarrow> poller \<Rightarrow> 'a provider \<Rightarrow> poller \<times> 'a provider" where
  "poll_write v pl st =
     (if cancelled pl then (pl, st)
      else
        (pl\<lparr>pending := pending pl + 1\<rparr>,
         (case v of
            Defined r \<Rightarrow>
              st\<lparr>assignments := Defined (response_assignments r),
                 currentAssignment := Defined (response_currentAssignment r)\<rparr>
          | Undefined \<Rightarrow>
              st\<lparr>assignments := Undefined, currentAssignment := Undefined\<rparr>)))"

text \<open>
  \<open>poll\<close>, resumed when the fetch settles: \<open>cancelled\<close> is read then, so \<open>pl\<close> and
  \<open>st\<close> are the closure and the state at that moment.
\<close>

definition poll ::
  "('e, 'a GetAssignmentsResponse) settled \<Rightarrow> poller \<Rightarrow> 'a provider \<Rightarrow> poller \<times> 'a provider" where
  "poll outcome pl st = poll_write (fst (poll_fetch pl outcome st)) pl (snd (poll_fetch pl outcome st))"

text \<open>A timer of the closure fires and runs \<open>poll\<close>; without a pending timer nothing runs.\<close>

definition timer_fires ::
  "('e, 'a GetAssignmentsResponse) settled \<Rightarrow> poller \<times> 'a provider \<Rightarrow>
   (poller \<times> 'a provider) option" where
  "timer_fires outcome s =
     (if pending (fst s) = 0 then None
      else Some (poll outcome ((fst s)\<lparr>pending := pending (fst s) - 1\<rparr>) (snd s)))"

text \<open>Successive polls of one closure, one fetch outcome each.\<close>

fun poll_cycles ::
  "('e, 'a GetAssignmentsResponse) settled list \<Rightarrow> poller \<times> 'a provider \<Rightarrow>
   (poller \<times> 'a provider) option" where
  "poll_cycles [] s = Some s"
| "poll_cycles (outcome # rest) s =
     (case timer_fires outcome s of None \<Rightarrow> None | Some s' \<Rightarrow> poll_cycles rest s')"

text \<open>A provider holding a fetched snapshot, and a closure polling for it.\<close>

definition fetchedProvider :: "nat provider" where
  "fetchedProvider =
     \<lparr>snackbar = [], assignments = Defined (Some [1, 2]), currentAssignment = Defined (Some 1)\<rparr>"

definition activePoller :: poller where
  "activePoller = \<lparr>currentPath = Some ''hw1'', cancelled = False, pending = 1\<rparr>"

section \<open>The push channel (\<open>AssignmentProvider\<close>, websocket effect)\<close>

datatype readyState = CONNECTING | OPEN | CLOSING | CLOSED

text \<open>
  A \<open>WebSocket\<close> object: its state, and how many \<open>triggerReconnect\<close> listeners for
  \<open>"close"\<close> are registered on it (each effect run registers a fresh closure).
\<close>

record WebSocket =
  readyState :: readyState
  closeListeners :: nat

text \<open>
  Every socket constructed so far, in order of construction; \<open>ws\<close> is the index of the
  socket in the state slot; \<open>timeouts\<close> are the delays of the \<open>setTimeout\<close> calls made by
  the effect that have not fired yet.
\<close>

record channel =
  sockets :: "WebSocket list"
  ws :: nat
  mounted :: bool
  timeouts :: "nat list"

definition WEBSOCKET_REOPEN_DELAY :: nat where
  "WEBSOCKET_REOPEN_DELAY = 1000"

text \<open>\<open>new WebSocket(WEBSOCKET_URL)\<close> starts to connect; the result is the new index.\<close>

definition new_WebSocket :: "channel \<Rightarrow> nat \<times> channel" where
  "new_WebSocket c =
     (length (sockets c),
      c\<lparr>sockets := sockets c @ [\<lparr>readyState = CONNECTING, closeListeners = 0\<rparr>]\<rparr>)"

text \<open>\<open>WebSocket.close()\<close>: nothing happens on a socket that is closing or closed.\<close>

definition socket_close :: "nat \<Rightarrow> channel \<Rightarrow> channel" where
  "socket_close i c =
     (if i < length (sockets c) \<and>
         (readyState (sockets c ! i) = CONNECTING \<or> readyState (sockets c ! i) = OPEN)
      then c\<lparr>sockets := (sockets c)[i := (sockets c ! i)\<lparr>readyState := CLOSING\<rparr>]\<rparr>
      else c)"

text \<open>
  The effect body: \<open>ws.addEventListener("close", triggerReconnect)\<close> on the slot's
  socket. The \<open>"message"\<close> listener it also registers shows a dialog and touches no
  socket, so it has no part in the state.
\<close>

definition ws_effect :: "channel \<Rightarrow> channel" where
  "ws_effect c =
     (if ws c < length (sockets c)
      then c\<lparr>sockets := (sockets c)
             [ws c := (sockets c ! ws c)\<lparr>closeListeners := closeListeners (sockets c ! ws c) + 1\<rparr>]\<rparr>
      else c)"

text \<open>The cleanup the effect returns, for the socket \<open>i\<close> it was run with: \<open>ws.close()\<close>.\<close>

definition ws_effect_cleanup :: "nat \<Rightarrow> channel \<Rightarrow> channel" where
  "ws_effect_cleanup i c = socket_close i c"

text \<open>
  \<open>setWs(j)\<close>: on a mounted component the slot changes, the previous run is cleaned up
  and the effect runs for the new socket; on an unmounted component the update is dropped.
\<close>

definition setWs :: "nat \<Rightarrow> channel \<Rightarrow> channel" where
  "setWs j c =
     (if mounted c then ws_effect ((ws_effect_cleanup (ws c) c)\<lparr>ws := j\<rparr>) else c)"

text \<open>\<open>triggerReconnect\<close> of the effect run for socket \<open>i\<close>.\<close>

definition triggerReconnect :: "nat \<Rightarrow> channel \<Rightarrow> channel" where
  "triggerReconnect i c =
     setWs (fst (new_WebSocket (socket_close i c))) (snd (new_WebSocket (socket_close i c)))"

text \<open>The connection of socket \<open>i\<close> is established.\<close>

definition open_event :: "nat \<Rightarrow> channel \<Rightarrow> channel" where
  "open_event i c =
     (if i < length (sockets c) \<and> readyState (sockets c ! i) = CONNECTING
      then c\<lparr>sockets := (sockets c)[i := (sockets c ! i)\<lparr>readyState := OPEN\<rparr>]\<rparr>
      else c)"

text \<open>
  The connection of socket \<open>i\<close> is closed (by the network, the server, or after
  \<open>close()\<close>): the socket is \<open>CLOSED\<close> and each \<open>"close"\<close> listener runs once.
\<close>

definition close_event :: "nat \<Rightarrow> channel \<Rightarrow> channel" where
  "close_event i c =
     (if i < length (sockets c) \<and> readyState (sockets c ! i) \<noteq> CLOSED
      then (triggerReconnect i ^^ closeListeners (sockets c ! i))
             (c\<lparr>sockets := (sockets c)[i := (sockets c ! i)\<lparr>readyState := CLOSED\<rparr>]\<rparr>)
      else c)"

text \<open>The component mounts: the initial state \<open>new WebSocket(WEBSOCKET_URL)\<close>, then the effect.\<close>

definition mount :: channel where
  "mount =
     ws_effect \<lparr>sockets = [\<lparr>readyState = CONNECTING, closeListeners = 0\<rparr>], ws = 0,
                mounted = True, timeouts = []\<rparr>"

text \<open>The component unmounts: the cleanup of the last effect run.\<close>

definition unmount :: "channel \<Rightarrow> channel" where
  "unmount c = (ws_effect_cleanup (ws c) c)\<lparr>mounted := False\<rparr>"

text \<open>The sockets that hold or are establishing a connection.\<close>

definition liveSockets :: "channel \<Rightarrow> nat" where
  "liveSockets c =
     length (filter (\<lambda>s. readyState s = CONNECTING \<or> readyState s = OPEN) (sockets c))"


section \<open>Date edits of the instructor (\<open>AssignmentInfo\<close>)\<close>

text \<open>
  Modelled from the spec: the hook \<open>useDebouncedCallback(f, 1000, { leading: true })\<close>
  of the package \<open>use-debounce\<close> is not under src/. The spec (4.6): "leading-edge: the
  first edit in a burst fires immediately, subsequent edits within the window are
  coalesced into one trailing write reflecting the latest value". A debouncer has a window
  open or not, and the argument of the latest call that has not been delivered.
\<close>

record 'e debounced =
  windowOpen :: bool
  lastArgs :: "'e option"

text \<open>Modelled from the spec: nothing was called yet.\<close>

definition debounced_idle :: "'e debounced" where
  "debounced_idle = \<lparr>windowOpen = False, lastArgs = None\<rparr>"

text \<open>
  Modelled from the spec: a call of the debounced function. The result is the argument
  the wrapped function is invoked with now, if it is, and the debouncer. Every call
  restarts the window.
\<close>

definition debounced_call :: "'e \<Rightarrow> 'e debounced \<Rightarrow> 'e option \<times> 'e debounced" where
  "debounced_call e d =
     (if windowOpen d then (None, d\<lparr>lastArgs := Some e\<rparr>)
      else (Some e, \<lparr>windowOpen = True, lastArgs = None\<rparr>))"

text \<open>
  Modelled from the spec: the window ends (the wait has passed since the last call). The
  latest undelivered argument, if any, is delivered.
\<close>

definition debounced_expire :: "'e debounced \<Rightarrow> 'e option \<times> 'e debounced" where
  "debounced_expire d =
     (if windowOpen d then (lastArgs d, \<lparr>windowOpen = False, lastArgs = None\<rparr>)
      else (None, d))"

text \<open>The body of \<open>updateAssignment\<close>'s request, as far as the date edits set it.\<close>

datatype UpdateAssignmentData = available_date "string option" | due_date "string option"

record update_request =
  assignmentName :: string
  data :: UpdateAssignmentData

text \<open>The assignment as the instructor's view reads it.\<close>

record InstructorAssignment =
  instructor_assignment_name :: string
  availableDate :: "Date option"
  dueDate :: "Date option"

text \<open>
  A change event refers to the input element it came from; its \<open>e.target.value\<close> is
  whatever that element holds when it is read.
\<close>

datatype input_element = availableDateInput | dueDateInput

record ChangeEvent =
  target :: input_element

text \<open>
  The state of the component: the two controlled input values, the two debouncers (their
  argument is the event), and the \<open>updateAssignment\<close> requests sent so far.
\<close>

record form = ui +
  availableDateControlled :: string
  dueDateControlled :: string
  availableDebounce :: "ChangeEvent debounced"
  dueDebounce :: "ChangeEvent debounced"
  requests :: "update_request list"

text \<open>
  The inputs are controlled: while no change event is being handled, an input element
  holds the controlled value of its field.
\<close>

definition target_value :: "ChangeEvent \<Rightarrow> form \<Rightarrow> string" where
  "target_value e f =
     (case target e of
        availableDateInput \<Rightarrow> availableDateControlled f
      | dueDateInput \<Rightarrow> dueDateControlled f)"

text \<open>
  \<open>formatDateToMui\<close>; the formatting \<open>moment(date).format("YYYY-MM-DDTHH:mm")\<close> is a
  parameter.
\<close>

definition formatDateToMui :: "(Date \<Rightarrow> string) \<Rightarrow> Date option \<Rightarrow> string" where
  "formatDateToMui moment_format date = (case date of None \<Rightarrow> [] | Some d \<Rightarrow> moment_format d)"

text \<open>
  The effect on \<open>[assignment]\<close>: when the context delivers an assignment, both controlled
  values are set from its dates.
\<close>

definition assignment_refreshed ::
  "(Date \<Rightarrow> string) \<Rightarrow> InstructorAssignment \<Rightarrow> form \<Rightarrow> form" where
  "assignment_refreshed moment_format assignment f =
     f\<lparr>availableDateControlled := formatDateToMui moment_format (availableDate assignment),
       dueDateControlled := formatDateToMui moment_format (dueDate assignment)\<rparr>"

text \<open>
  The function wrapped by \<open>onAvailableDateChanged\<close>, up to its request;
  \<open>addLocalTimezone\<close> (declared in \<open>utils\<close>) is a parameter.
\<close>

definition availableDate_update ::
  "(string \<Rightarrow> string) \<Rightarrow> InstructorAssignment \<Rightarrow> string \<Rightarrow> update_request" where
  "availableDate_update addLocalTimezone assignment v =
     \<lparr>assignmentName = instructor_assignment_name assignment,
      data = available_date (if v \<noteq> [] then Some (addLocalTimezone v) else None)\<rparr>"

definition dueDate_update ::
  "(string \<Rightarrow> string) \<Rightarrow> InstructorAssignment \<Rightarrow> string \<Rightarrow> update_request" where
  "dueDate_update addLocalTimezone assignment v =
     \<lparr>assignmentName = instructor_assignment_name assignment,
      data = due_date (if v \<noteq> [] then Some (addLocalTimezone v) else None)\<rparr>"

text \<open>The \<open>catch\<close> of the wrapped function, when its request is rejected with a message.\<close>

definition update_settled :: "(string, unit) settled \<Rightarrow> form \<Rightarrow> form" where
  "update_settled outcome f =
     (case outcome of
        Resolved u \<Rightarrow> f
      | Rejected m \<Rightarrow> f\<lparr>snackbar := snackbar_open Error (''Failed to update: '' @ m) (snackbar f)\<rparr>)"

text \<open>Sending the requests of the invocations a debouncer makes.\<close>

definition send :: "update_request option \<Rightarrow> update_request list \<Rightarrow> update_request list" where
  "send r sent = (case r of None \<Rightarrow> sent | Some q \<Rightarrow> sent @ [q])"

text \<open>
  The debounced callbacks. The debouncer is given the event \<open>e\<close>; the wrapped function
  reads \<open>e.target.value\<close> when it is invoked. On the leading edge that is at once, while
  the event is handled, and the element holds the edited value \<open>v\<close>.
\<close>

definition onAvailableDateChanged ::
  "(string \<Rightarrow> string) \<Rightarrow> InstructorAssignment \<Rightarrow> ChangeEvent \<Rightarrow> string \<Rightarrow> form \<Rightarrow> form" where
  "onAvailableDateChanged addLocalTimezone assignment e v f =
     f\<lparr>availableDebounce := snd (debounced_call e (availableDebounce f)),
       requests :=
         send (map_option (\<lambda>invoked. availableDate_update addLocalTimezone assignment v)
                 (fst (debounced_call e (availableDebounce f)))) (requests f)\<rparr>"

definition onDueDateChanged ::
  "(string \<Rightarrow> string) \<Rightarrow> InstructorAssignment \<Rightarrow> ChangeEvent \<Rightarrow> string \<Rightarrow> form \<Rightarrow> form" where
  "onDueDateChanged addLocalTimezone assignment e v f =
     f\<lparr>dueDebounce := snd (debounced_call e (dueDebounce f)),
       requests :=
         send (map_option (\<lambda>invoked. dueDate_update addLocalTimezone assignment v)
                 (fst (debounced_call e (dueDebounce f)))) (requests f)\<rparr>"

text \<open>
  The end of a window. On the trailing edge the wrapped function is invoked with the
  stored event and reads \<open>e.target.value\<close> then: what the element holds at that moment.
\<close>

definition availableDate_window_ends ::
  "(string \<Rightarrow> string) \<Rightarrow> InstructorAssignment \<Rightarrow> form \<Rightarrow> form" where
  "availableDate_window_ends addLocalTimezone assignment f =
     f\<lparr>availableDebounce := snd (debounced_expire (availableDebounce f)),
       requests :=
         send (map_option
                 (\<lambda>invoked. availableDate_update addLocalTimezone assignment
                     (target_value invoked f))
                 (fst (debounced_expire (availableDebounce f)))) (requests f)\<rparr>"

definition dueDate_window_ends ::
  "(string \<Rightarrow> string) \<Rightarrow> InstructorAssignment \<Rightarrow> form \<Rightarrow> form" where
  "dueDate_window_ends addLocalTimezone assignment f =
     f\<lparr>dueDebounce := snd (debounced_expire (dueDebounce f)),
       requests :=
         send (map_option
                 (\<lambda>invoked. dueDate_update addLocalTimezone assignment
                     (target_value invoked f))
                 (fst (debounced_expire (dueDebounce f)))) (requests f)\<rparr>"

text \<open>
  The \<open>onChange\<close> handlers of the two inputs; \<open>v\<close> is \<open>e.target.value\<close>. A \<open>Date\<close>
  object is truthy, so the guard tests the assignment's date for \<open>null\<close> only.
\<close>

definition availableDate_onChange ::
  "(string \<Rightarrow> Date) \<Rightarrow> (string \<Rightarrow> string) \<Rightarrow> InstructorAssignment \<Rightarrow> string \<Rightarrow> form \<Rightarrow> form" where
  "availableDate_onChange new_Date addLocalTimezone assignment v f =
     (if (case dueDate assignment of None \<Rightarrow> False | Some due \<Rightarrow> date_ge (new_Date v) due)
      then f
      else onAvailableDateChanged addLocalTimezone assignment \<lparr>target = availableDateInput\<rparr> v
             (f\<lparr>availableDateControlled := v\<rparr>))"

definition dueDate_onChange ::
  "(string \<Rightarrow> Date) \<Rightarrow> (string \<Rightarrow> string) \<Rightarrow> InstructorAssignment \<Rightarrow> string \<Rightarrow> form \<Rightarrow> form" where
  "dueDate_onChange new_Date addLocalTimezone assignment v f =
     (if (case availableDate assignment of None \<Rightarrow> False
          | Some available \<Rightarrow> date_le (new_Date v) available)
      then f
      else onDueDateChanged addLocalTimezone assignment \<lparr>target = dueDateInput\<rparr> v
             (f\<lparr>dueDateControlled := v\<rparr>))"

text \<open>The guards of the two handlers: the edit is refused.\<close>

definition availableDate_refused :: "(string \<Rightarrow> Date) \<Rightarrow> InstructorAssignment \<Rightarrow> string \<Rightarrow> bool" where
  "availableDate_refused new_Date assignment v =
     (case dueDate assignment of None \<Rightarrow> False | Some due \<Rightarrow> date_ge (new_Date v) due)"

definition dueDate_refused :: "(string \<Rightarrow> Date) \<Rightarrow> InstructorAssignment \<Rightarrow> string \<Rightarrow> bool" where
  "dueDate_refused new_Date assignment v =
     (case availableDate assignment of None \<Rightarrow> False
      | Some available \<Rightarrow> date_le (new_Date v) available)"

text \<open>A form with nothing edited yet, and an assignment open for one day.\<close>

definition freshForm :: form where
  "freshForm =
     \<lparr>snackbar = [], availableDateControlled = ''2024-01-01T00:00'',
      dueDateControlled = ''2024-01-02T00:00'', availableDebounce = debounced_idle,
      dueDebounce = debounced_idle, requests = []\<rparr>"

definition oneDayAssignment :: InstructorAssignment where
  "oneDayAssignment =
     \<lparr>instructor_assignment_name = ''hw1'',
      availableDate = Some (Time_Value 1704067200000),
      dueDate = Some (Time_Value 1704153600000)\<rparr>"


section \<open>The submit form (\<open>AssignmentSubmitForm\<close>)\<close>

text \<open>The state of the component.\<close>

record submitForm = ui +
  summaryText :: string
  descriptionText :: string
  submitting :: bool
  submitRequests :: "(string \<times> string \<times> string) list"

text \<open>
  \<open>disabled\<close>. The assignment of the context is \<open>ICurrentAssignment | null | undefined\<close>;
  \<open>assignment?.isAvailable\<close> of a missing assignment is \<open>undefined\<close>, which is falsy.
\<close>

definition present :: "'a option undef \<Rightarrow> 'a option" where
  "present v = (case v of Undefined \<Rightarrow> None | Defined w \<Rightarrow> w)"

definition disabled :: "bool \<Rightarrow> string \<Rightarrow> 'p Assignment option undef \<Rightarrow> bool" where
  "disabled submitting_now summary assignment =
     (submitting_now \<or> summary = [] \<or>
      \<not> (case present assignment of None \<Rightarrow> False | Some a \<Rightarrow> isAvailable a) \<or>
      (case present assignment of None \<Rightarrow> False | Some a \<Rightarrow> isClosed a))"

datatype js_error = TypeError

text \<open>
  \<open>disabledReason\<close>. \<open>ICourse\<close> is declared in \<open>./course\<close>; the parameter is the list
  \<open>course.instructors\<close>, or \<open>Undefined\<close> when the course is not loaded, where
  \<open>course!.instructors\<close> throws.
\<close>

definition disabledReason ::
  "bool \<Rightarrow> string \<Rightarrow> 'p Assignment option undef \<Rightarrow> 'i list undef \<Rightarrow> js_error + string undef" where
  "disabledReason submitting_now summary assignment instructors =
     (if disabled submitting_now summary assignment then
        (case present assignment of
           None \<Rightarrow> Inr Undefined
         | Some a \<Rightarrow>
             if submitting_now then Inr (Defined ''Currently uploading submission'')
             else if \<not> isAvailable a
               then Inr (Defined ''Assignment is not available for you to work on yet'')
             else if isClosed a then
               (case instructors of
                  Undefined \<Rightarrow> Inl TypeError
                | Defined staff \<Rightarrow>
                    Inr (Defined (''Past due. Please contact your instructor'' @
                                  (if length staff > 1 then ''s'' else '''') @
                                  '' if you need an extension'')))
             else if summary = [] then Inr (Defined ''Please enter a summary for the submission'')
             else Inr Undefined)
      else Inr Undefined)"

text \<open>
  \<open>submitAssignment\<close> up to its \<open>await\<close>: with a falsy \<open>path\<close> (\<open>null\<close> or the empty
  string) it returns at once; \<open>None\<close> says that no request was made.
\<close>

definition submit_begin :: "string option \<Rightarrow> submitForm \<Rightarrow> submitForm option" where
  "submit_begin path f =
     (case path of
        None \<Rightarrow> None
      | Some p \<Rightarrow>
          if p = [] then None
          else Some (f\<lparr>submitting := True,
                       submitRequests :=
                         submitRequests f @ [(p, summaryText f, descriptionText f)]\<rparr>))"

text \<open>\<open>submitAssignment\<close> once the request settles.\<close>

definition submit_settled :: "('e, unit) settled \<Rightarrow> submitForm \<Rightarrow> submitForm" where
  "submit_settled outcome f =
     (case outcome of
        Resolved u \<Rightarrow>
          f\<lparr>summaryText := [], descriptionText := [],
            snackbar := snackbar_open Success ''Successfully submitted assignment!'' (snackbar f),
            submitting := False\<rparr>
      | Rejected e \<Rightarrow>
          f\<lparr>snackbar := snackbar_open Error ''Failed to submit assignment!'' (snackbar f),
            submitting := False\<rparr>)"

definition submitAssignment ::
  "string option \<Rightarrow> ('e, unit) settled \<Rightarrow> submitForm \<Rightarrow> submitForm" where
  "submitAssignment path outcome f =
     (case submit_begin path f of None \<Rightarrow> f | Some g \<Rightarrow> submit_settled outcome g)"

text \<open>A filled form, and an assignment that is available and closed.\<close>

definition filledForm :: submitForm where
  "filledForm =
     \<lparr>snackbar = [], summaryText = ''final version'', descriptionText = ''all tasks done'',
      submitting = False, submitRequests = []\<rparr>"

definition closedAssignment :: "unit Assignment" where
  "closedAssignment =
     \<lparr>ident = 1, name = ''hw1'', directoryPath = ''hw1'',
      absoluteDirectoryPath = ''/home/student/hw1'',
      createdDate = Time_Value 1704067200000,
      adjustedAvailableDate = Some (Time_Value 1704067200000),
      adjustedDueDate = Some (Time_Value 1704153600000),
      lastModifiedDate = Time_Value 1704067200000,
      isDeferred = False, isExtended = False,
      isCreated = True, isAvailable = True, isClosed = True,
      submissions = Defined []\<rparr>"

text \<open>Two submissions, the older one first, and an assignment holding them.\<close>

definition olderSubmission :: "unit ISubmission" where
  "olderSubmission = \<lparr>submissionTime = Time_Value 1704070000000, otherFields = ()\<rparr>"

definition newerSubmission :: "unit ISubmission" where
  "newerSubmission = \<lparr>submissionTime = Time_Value 1704080000000, otherFields = ()\<rparr>"

definition twiceSubmitted :: "unit Assignment" where
  "twiceSubmitted = closedAssignment\<lparr>submissions := Defined [olderSubmission, newerSubmission]\<rparr>"

text \<open>
  A submission whose time did not parse, and an assignment that holds it between the
  other two.
\<close>

definition undatedSubmission :: "unit ISubmission" where
  "undatedSubmission = \<lparr>submissionTime = Invalid_Date, otherFields = ()\<rparr>"

definition undatedBetween :: "unit Assignment" where
  "undatedBetween =
     closedAssignment
       \<lparr>submissions := Defined [olderSubmission, undatedSubmission, newerSubmission]\<rparr>"

text \<open>
  Stand-ins for the two parameters on concrete inputs: a \<open>Submission.fromResponse\<close> for
  responses that carry no submission data, and an \<open>addLocalTimezone\<close> that appends the
  offset of UTC.
\<close>

definition Submission_fromResponse_sample :: "unit \<Rightarrow> unit ISubmission" where
  "Submission_fromResponse_sample r = \<lparr>submissionTime = Invalid_Date, otherFields = r\<rparr>"

definition addLocalTimezone_sample :: "string \<Rightarrow> string" where
  "addLocalTimezone_sample v = v @ ''+00:00''"

text \<open>
  The values of \<open>new Date(s)\<close> at six values of a \<open>datetime-local\<close> input, on a host
  whose zone is UTC, and of the formatting at the two dates of the one-day assignment; any
  other argument is left unparsed or unformatted.
\<close>

definition new_Date_local_sample :: "string \<Rightarrow> Date" where
  "new_Date_local_sample s =
     (if s = ''2024-01-01T01:00'' then Time_Value 1704070800000
      else if s = ''2024-01-01T02:00'' then Time_Value 1704074400000
      else if s = ''2024-01-01T03:00'' then Time_Value 1704078000000
      else if s = ''2024-01-02T01:00'' then Time_Value 1704157200000
      else if s = ''2024-01-02T02:00'' then Time_Value 1704160800000
      else if s = ''2024-01-02T03:00'' then Time_Value 1704164400000
      else Invalid_Date)"

definition moment_format_sample :: "Date \<Rightarrow> string" where
  "moment_format_sample d =
     (if d = Time_Value 1704067200000 then ''2024-01-01T00:00''
      else if d = Time_Value 1704153600000 then ''2024-01-02T00:00''
      else [])"

text \<open>The result of a fetch that finds two assignments, the first one current.\<close>

definition fetchedResponse :: "nat GetAssignmentsResponse" where
  "fetchedResponse =
     \<lparr>response_assignments = Some [3, 4], response_currentAssignment = Some 3\<rparr>"


section \<open>Sorting submissions\<close>

lemma set_sort_insert: "set (sort_insert c x xs) = insert x (set xs)"
  by (induction xs) auto

lemma set_stable_sort: "set (stable_sort c xs) = set xs"
  by (induction xs) (auto simp: set_sort_insert)

lemma stable_sort_Nil_iff: "stable_sort c xs = [] \<longleftrightarrow> xs = []"
  by (metis set_stable_sort set_empty)

lemma SortCompare_newestFirst:
  "submissionTime a \<noteq> Invalid_Date \<Longrightarrow> submissionTime b \<noteq> Invalid_Date \<Longrightarrow>
   SortCompare newestFirst a b = timeOf b - timeOf a"
  by (cases "submissionTime a"; cases "submissionTime b")
     (simp_all add: SortCompare_def newestFirst_def)

lemma newestFirst_number:
  "submissionTime a \<noteq> Invalid_Date \<Longrightarrow> submissionTime b \<noteq> Invalid_Date \<Longrightarrow>
   newestFirst a b \<noteq> None"
  by (cases "submissionTime a"; cases "submissionTime b") (simp_all add: newestFirst_def)

lemma date_le_timeOf:
  "submissionTime t \<noteq> Invalid_Date \<Longrightarrow> submissionTime s \<noteq> Invalid_Date \<Longrightarrow>
   date_le (submissionTime t) (submissionTime s) = (timeOf t \<le> timeOf s)"
  by (cases "submissionTime t"; cases "submissionTime s") (simp_all add: date_le_def)

text \<open>On valid dates the comparator is consistent, so every engine sorts alike.\<close>

lemma consistent_newestFirst:
  assumes "validTimes xs"
  shows "consistent newestFirst xs"
proof -
  have v: "\<forall>a\<in>set xs. submissionTime a \<noteq> Invalid_Date"
    using assms by (simp add: validTimes_def list_all_iff)
  have n: "\<forall>a\<in>set xs. \<forall>b\<in>set xs. newestFirst a b \<noteq> None"
    using v by (simp add: newestFirst_number)
  have c: "\<forall>a\<in>set xs. \<forall>b\<in>set xs. SortCompare newestFirst a b = timeOf b - timeOf a"
    using v by (simp add: SortCompare_newestFirst)
  show ?thesis
    unfolding consistent_def list_all_iff
  proof (intro conjI ballI impI)
    fix a b assume "a \<in> set xs" "b \<in> set xs"
    then show "newestFirst a b \<noteq> None" using n by blast
  next
    fix a assume "a \<in> set xs"
    then show "SortCompare newestFirst a a = 0" using c by simp
  next
    fix a b assume "a \<in> set xs" "b \<in> set xs" "SortCompare newestFirst a b = 0"
    then show "SortCompare newestFirst b a = 0" using c by simp
  next
    fix a b d
    assume "a \<in> set xs" "b \<in> set xs" "d \<in> set xs"
      "SortCompare newestFirst a b = 0 \<and> SortCompare newestFirst b d = 0"
    then show "SortCompare newestFirst a d = 0" using c by simp
  next
    fix a b d
    assume "a \<in> set xs" "b \<in> set xs" "d \<in> set xs"
      "SortCompare newestFirst a b < 0 \<and> SortCompare newestFirst b d < 0"
    then show "SortCompare newestFirst a d < 0" using c by simp
  next
    fix a b d
    assume "a \<in> set xs" "b \<in> set xs" "d \<in> set xs"
      "0 < SortCompare newestFirst a b \<and> 0 < SortCompare newestFirst b d"
    then show "0 < SortCompare newestFirst a d" using c by simp
  qed
qed

lemma Array_sort_validTimes:
  "validTimes xs \<Longrightarrow> Array_sort engine newestFirst xs = stable_sort newestFirst xs"
  by (simp add: Array_sort_def consistent_newestFirst)

text \<open>Whatever the comparator and the engine, the sorted array is a permutation.\<close>

lemma mset_sort_insert: "mset (sort_insert c x xs) = add_mset x (mset xs)"
  by (induction xs) auto

lemma mset_stable_sort: "mset (stable_sort c xs) = mset xs"
  by (induction xs) (auto simp: mset_sort_insert)

lemma mset_Array_sort: "mset (Array_sort engine c xs) = mset xs"
  by (simp add: Array_sort_def mset_stable_sort)

lemma newestAtHead_sort_insert:
  assumes "validTimes (x # xs)" and "newestAtHead xs"
  shows "newestAtHead (sort_insert newestFirst x xs)"
proof (cases xs)
  case Nil
  then show ?thesis by (simp add: newestAtHead_def)
next
  case (Cons y ys)
  have vx: "submissionTime x \<noteq> Invalid_Date" and vy: "submissionTime y \<noteq> Invalid_Date"
    using assms(1) Cons by (simp_all add: validTimes_def)
  have ys: "\<forall>t\<in>set ys. timeOf t \<le> timeOf y"
    using assms(2) Cons by (simp add: newestAtHead_def list_all_iff)
  show ?thesis
  proof (cases "SortCompare newestFirst x y \<le> 0")
    case True
    then have "timeOf y \<le> timeOf x"
      using SortCompare_newestFirst [OF vx vy] by simp
    with ys True Cons show ?thesis
      by (auto simp: newestAtHead_def list_all_iff)
  next
    case False
    then have "timeOf x \<le> timeOf y"
      using SortCompare_newestFirst [OF vx vy] by simp
    with ys False Cons show ?thesis
      by (auto simp: newestAtHead_def list_all_iff set_sort_insert)
  qed
qed

lemma newestAtHead_stable_sort:
  "validTimes xs \<Longrightarrow> newestAtHead (stable_sort newestFirst xs)"
proof (induction xs)
  case Nil
  then show ?case by (simp add: newestAtHead_def)
next
  case (Cons x xs)
  have tl: "validTimes xs" using Cons.prems by (simp add: validTimes_def)
  have "validTimes (x # stable_sort newestFirst xs)"
    using Cons.prems by (simp add: validTimes_def list_all_iff set_stable_sort)
  then show ?case
    using Cons.IH [OF tl] by (simp add: newestAtHead_sort_insert)
qed


section \<open>The active submission\<close>

text \<open>
  With an invalid date among the submission times the result need not be the newest
  submission: on an engine that orders such an array by insertion, the array with an
  undated submission between an older and a newer one stays as it is, and the older one
  is returned.
\<close>

theorem activeSubmission_newest_counterexample:
  "submissions undatedBetween =
     Defined [olderSubmission, undatedSubmission, newerSubmission] \<and>
   fst (activeSubmission stable_sort undatedBetween) = Defined (Some olderSubmission) \<and>
   \<not> date_le (submissionTime newerSubmission) (submissionTime olderSubmission)"
  by (simp add: activeSubmission_def Array_sort_def consistent_def undatedBetween_def
      closedAssignment_def olderSubmission_def undatedSubmission_def newerSubmission_def
      SortCompare_def newestFirst_def date_le_def)

text \<open>
  C5. On every engine, the value of \<open>activeSubmission\<close> is \<open>undefined\<close> when the
  submissions are unknown, \<open>null\<close> when the list is empty, and, when the list is not
  empty and every submission time is a valid date, a submission of the list whose
  submission time is the greatest of the list.
\<close>

theorem activeSubmission_newest:
  "(submissions a = Undefined \<longrightarrow> fst (activeSubmission engine a) = Undefined) \<and>
   (submissions a = Defined [] \<longrightarrow> fst (activeSubmission engine a) = Defined None) \<and>
   (\<forall>subs. submissions a = Defined subs \<and> subs \<noteq> [] \<and> validTimes subs \<longrightarrow>
      (\<exists>s. fst (activeSubmission engine a) = Defined (Some s) \<and> s \<in> set subs \<and>
           (\<forall>t\<in>set subs. date_le (submissionTime t) (submissionTime s))))"
proof (intro conjI allI impI)
  assume "submissions a = Undefined"
  then show "fst (activeSubmission engine a) = Undefined"
    by (simp add: activeSubmission_def)
next
  assume "submissions a = Defined []"
  then show "fst (activeSubmission engine a) = Defined None"
    by (simp add: activeSubmission_def)
next
  fix subs
  assume h: "submissions a = Defined subs \<and> subs \<noteq> [] \<and> validTimes subs"
  have eng: "Array_sort engine newestFirst subs = stable_sort newestFirst subs"
    using h by (simp add: Array_sort_validTimes)
  obtain s r where sr: "stable_sort newestFirst subs = s # r"
    using h stable_sort_Nil_iff [of newestFirst subs]
    by (cases "stable_sort newestFirst subs") auto
  have mem: "set (s # r) = set subs"
    using set_stable_sort [of newestFirst subs] sr by simp
  have valid: "\<forall>t\<in>set subs. submissionTime t \<noteq> Invalid_Date"
    using h by (simp add: validTimes_def list_all_iff)
  have "newestAtHead (s # r)"
    using newestAtHead_stable_sort [of subs] h sr by simp
  then have top: "\<forall>t\<in>set (s # r). timeOf t \<le> timeOf s"
    by (simp add: newestAtHead_def list_all_iff)
  have res: "fst (activeSubmission engine a) = Defined (Some s)"
    using h sr eng by (simp add: activeSubmission_def Let_def)
  have s_in: "s \<in> set subs" using mem by auto
  have "\<forall>t\<in>set subs. date_le (submissionTime t) (submissionTime s)"
  proof
    fix t assume t_in: "t \<in> set subs"
    then have "timeOf t \<le> timeOf s" using top mem by blast
    then show "date_le (submissionTime t) (submissionTime s)"
      using valid t_in s_in by (simp add: date_le_timeOf)
  qed
  with res s_in show "\<exists>s. fst (activeSubmission engine a) = Defined (Some s) \<and> s \<in> set subs \<and>
           (\<forall>t\<in>set subs. date_le (submissionTime t) (submissionTime s))"
    by blast
qed

text \<open>
  The theorem at three assignments: one with the older submission stored first, one with
  no submission, one whose submissions are unknown.
\<close>

theorem activeSubmission_newest_witness:
  "validTimes [olderSubmission, newerSubmission] \<and>
   fst (activeSubmission stable_sort twiceSubmitted) = Defined (Some newerSubmission) \<and>
   fst (activeSubmission stable_sort closedAssignment) = Defined None \<and>
   fst (activeSubmission stable_sort (closedAssignment\<lparr>submissions := Undefined\<rparr>)) = Undefined"
proof -
  have v: "validTimes [olderSubmission, newerSubmission]"
    by (simp add: validTimes_def olderSubmission_def newerSubmission_def)
  have s: "submissions twiceSubmitted = Defined [olderSubmission, newerSubmission]"
    by (simp add: twiceSubmitted_def)
  have e: "submissions closedAssignment = Defined []"
    by (simp add: closedAssignment_def)
  have "\<exists>s. fst (activeSubmission stable_sort twiceSubmitted) = Defined (Some s) \<and>
          s \<in> set [olderSubmission, newerSubmission] \<and>
          (\<forall>t\<in>set [olderSubmission, newerSubmission].
              date_le (submissionTime t) (submissionTime s))"
    using activeSubmission_newest [of twiceSubmitted stable_sort] v s by simp
  then have "fst (activeSubmission stable_sort twiceSubmitted) = Defined (Some newerSubmission)"
    by (auto simp: olderSubmission_def newerSubmission_def date_le_def)
  moreover have "fst (activeSubmission stable_sort closedAssignment) = Defined None"
    using activeSubmission_newest [of closedAssignment stable_sort] e by simp
  moreover have
    "fst (activeSubmission stable_sort (closedAssignment\<lparr>submissions := Undefined\<rparr>)) = Undefined"
    using activeSubmission_newest [of "closedAssignment\<lparr>submissions := Undefined\<rparr>" stable_sort]
    by simp
  ultimately show ?thesis using v by simp
qed

text \<open>
  C9. Reading \<open>activeSubmission\<close> of an assignment whose two submissions are stored
  oldest first leaves the assignment with its submissions list reversed, on every engine:
  the getter sorts the stored array itself. Every other field is as before.
\<close>

theorem activeSubmission_reorders_submissions:
  "submissions twiceSubmitted = Defined [olderSubmission, newerSubmission] \<and>
   submissions (snd (activeSubmission engine twiceSubmitted)) =
     Defined [newerSubmission, olderSubmission] \<and>
   snd (activeSubmission engine twiceSubmitted) \<noteq> twiceSubmitted \<and>
   snd (activeSubmission engine twiceSubmitted) =
     twiceSubmitted\<lparr>submissions := Defined [newerSubmission, olderSubmission]\<rparr>"
proof -
  have "validTimes [olderSubmission, newerSubmission]"
    by (simp add: validTimes_def olderSubmission_def newerSubmission_def)
  then have "Array_sort engine newestFirst [olderSubmission, newerSubmission] =
               stable_sort newestFirst [olderSubmission, newerSubmission]"
    by (rule Array_sort_validTimes)
  also have "\<dots> = [newerSubmission, olderSubmission]"
    by (simp add: olderSubmission_def newerSubmission_def SortCompare_def newestFirst_def)
  finally have sorted:
    "Array_sort engine newestFirst [olderSubmission, newerSubmission] =
       [newerSubmission, olderSubmission]" .
  have differ: "olderSubmission \<noteq> newerSubmission"
    by (simp add: olderSubmission_def newerSubmission_def)
  show ?thesis
    using sorted differ
    by (simp add: activeSubmission_def twiceSubmitted_def closedAssignment_def)
qed


section \<open>Facets of a constructed assignment\<close>

text \<open>
  Ordered dates do not make the facets consistent: a response with both dates set, due a
  day after available, and the flags closed but not available, is constructed as it is.
\<close>

theorem fromResponse_facets_counterexample:
  "datesOrdered (fromResponse new_Date_sample Submission_fromResponse_sample closedNotAvailable) \<and>
   \<not> facetsConsistent
       (fromResponse new_Date_sample Submission_fromResponse_sample closedNotAvailable)"
  by (simp add: datesOrdered_def facetsConsistent_def fromResponse_def new_Date_sample_def
      closedNotAvailable_def truthy_def date_ge_def)

text \<open>
  C1. The facets \<open>isCreated\<close>, \<open>isAvailable\<close> and \<open>isClosed\<close> of a constructed
  assignment are the flags of the response, copied; an adjusted date is non-null exactly
  when the response has a non-empty string for it. So the facets satisfy
  \<open>isClosed \<Rightarrow> isAvailable \<Rightarrow> isCreated\<close> and \<open>isCreated \<Leftrightarrow>\<close> both dates non-null
  exactly when the flags and date strings of the response do.
\<close>

theorem fromResponse_copies_flags:
  "isCreated (fromResponse nd sf d) = is_created d \<and>
   isAvailable (fromResponse nd sf d) = is_available d \<and>
   isClosed (fromResponse nd sf d) = is_closed d \<and>
   (adjustedAvailableDate (fromResponse nd sf d) \<noteq> None \<longleftrightarrow>
      truthy (adjusted_available_date d)) \<and>
   (adjustedDueDate (fromResponse nd sf d) \<noteq> None \<longleftrightarrow> truthy (adjusted_due_date d)) \<and>
   (facetsConsistent (fromResponse nd sf d) \<longleftrightarrow> responseConsistent d)"
  by (auto simp: fromResponse_def facetsConsistent_def responseConsistent_def truthy_def
      split: option.splits)

text \<open>The theorem at a response that is created, available and not closed.\<close>

theorem fromResponse_copies_flags_witness:
  "responseConsistent openResponse \<and>
   facetsConsistent (fromResponse new_Date_sample Submission_fromResponse_sample openResponse) \<and>
   isCreated (fromResponse new_Date_sample Submission_fromResponse_sample openResponse) \<and>
   isAvailable (fromResponse new_Date_sample Submission_fromResponse_sample openResponse) \<and>
   \<not> isClosed (fromResponse new_Date_sample Submission_fromResponse_sample openResponse)"
proof -
  have r: "responseConsistent openResponse"
    by (simp add: responseConsistent_def openResponse_def closedNotAvailable_def truthy_def)
  have f: "is_created openResponse \<and> is_available openResponse \<and> \<not> is_closed openResponse"
    by (simp add: openResponse_def closedNotAvailable_def)
  show ?thesis
    using fromResponse_copies_flags
            [of new_Date_sample Submission_fromResponse_sample openResponse] r f
    by simp
qed

section \<open>The poll loop\<close>

lemma poll_rejected:
  "currentPath pl = Some p \<Longrightarrow> \<not> cancelled pl \<Longrightarrow>
   poll (Rejected e) pl st =
     (pl\<lparr>pending := pending pl + 1\<rparr>,
      st\<lparr>snackbar := snackbar_open Warning ''Failed to pull assignments...'' (snackbar st),
         assignments := Undefined, currentAssignment := Undefined\<rparr>)"
  by (simp add: poll_def poll_fetch_def poll_write_def)

lemma poll_resolved:
  "currentPath pl = Some p \<Longrightarrow> \<not> cancelled pl \<Longrightarrow>
   poll (Resolved v) pl st =
     (pl\<lparr>pending := pending pl + 1\<rparr>,
      st\<lparr>assignments := Defined (response_assignments v),
         currentAssignment := Defined (response_currentAssignment v)\<rparr>)"
  by (simp add: poll_def poll_fetch_def poll_write_def)

lemma timer_fires_rejected:
  "currentPath pl = Some p \<Longrightarrow> \<not> cancelled pl \<Longrightarrow> 0 < pending pl \<Longrightarrow>
   timer_fires (Rejected e) (pl, st) =
     Some (pl,
      st\<lparr>snackbar := snackbar_open Warning ''Failed to pull assignments...'' (snackbar st),
         assignments := Undefined, currentAssignment := Undefined\<rparr>)"
  by (simp add: timer_fires_def poll_rejected)

lemma timer_fires_resolved:
  "currentPath pl = Some p \<Longrightarrow> \<not> cancelled pl \<Longrightarrow> 0 < pending pl \<Longrightarrow>
   timer_fires (Resolved v) (pl, st) =
     Some (pl,
      st\<lparr>assignments := Defined (response_assignments v),
         currentAssignment := Defined (response_currentAssignment v)\<rparr>)"
  by (simp add: timer_fires_def poll_resolved)

lemma poll_cycles_append:
  "poll_cycles (xs @ ys) s =
     (case poll_cycles xs s of None \<Rightarrow> None | Some s' \<Rightarrow> poll_cycles ys s')"
  by (induction xs arbitrary: s) (auto split: option.splits)

lemma poll_cycles_failures:
  "currentPath pl = Some p \<Longrightarrow> \<not> cancelled pl \<Longrightarrow> 0 < pending pl \<Longrightarrow>
   \<exists>st'. poll_cycles (map Rejected es) (pl, st) = Some (pl, st') \<and>
         length (snackbar st') = length (snackbar st) + length es"
proof (induction es arbitrary: st)
  case Nil
  then show ?case by simp
next
  case (Cons e es)
  let ?st1 = "st\<lparr>snackbar := snackbar_open Warning ''Failed to pull assignments...'' (snackbar st),
         assignments := Undefined, currentAssignment := Undefined\<rparr>"
  obtain st' where st': "poll_cycles (map Rejected es) (pl, ?st1) = Some (pl, st')"
    "length (snackbar st') = length (snackbar ?st1) + length es"
    using Cons.IH [OF Cons.prems, of ?st1] by blast
  then show ?case
    using Cons.prems by (auto simp: timer_fires_rejected snackbar_open_def)
qed

text \<open>
  A failed fetch does not leave the stored snapshot in place: a provider that holds two
  assignments has both slots \<open>undefined\<close> after one failed poll.
\<close>

theorem failed_poll_counterexample:
  "assignments fetchedProvider = Defined (Some [1, 2]) \<and>
   currentAssignment fetchedProvider = Defined (Some 1) \<and>
   map_option (assignments \<circ> snd) (timer_fires (Rejected ()) (activePoller, fetchedProvider)) =
     Some Undefined \<and>
   map_option (currentAssignment \<circ> snd)
     (timer_fires (Rejected ()) (activePoller, fetchedProvider)) = Some Undefined"
  by (simp add: fetchedProvider_def activePoller_def timer_fires_def poll_def poll_fetch_def
      poll_write_def)

text \<open>
  C2. For a closure that is not cancelled and has a path: a poll whose fetch
  fails sets both slots to \<open>undefined\<close>, emits the warning and schedules the next poll;
  and after any number of failed polls in a row, a poll whose fetch succeeds runs and
  writes its result into both slots, one warning having been emitted per failure.
\<close>

theorem failed_poll_resets_and_retries:
  fixes e :: 'e and es :: "'e list" and st :: "'a provider"
  assumes "currentPath pl = Some p" and "\<not> cancelled pl" and "0 < pending pl"
  shows "poll (Rejected e) pl st =
           (pl\<lparr>pending := pending pl + 1\<rparr>,
            st\<lparr>snackbar := snackbar st @
                   [\<lparr>snack_type = Warning, message = ''Failed to pull assignments...''\<rparr>],
               assignments := Undefined, currentAssignment := Undefined\<rparr>) \<and>
         (\<exists>st'. poll_cycles (map Rejected es @ [Resolved v]) (pl, st) = Some (pl, st') \<and>
                assignments st' = Defined (response_assignments v) \<and>
                currentAssignment st' = Defined (response_currentAssignment v) \<and>
                length (snackbar st') = length (snackbar st) + length es)"
proof
  show "poll (Rejected e) pl st =
           (pl\<lparr>pending := pending pl + 1\<rparr>,
            st\<lparr>snackbar := snackbar st @
                   [\<lparr>snack_type = Warning, message = ''Failed to pull assignments...''\<rparr>],
               assignments := Undefined, currentAssignment := Undefined\<rparr>)"
    using assms(1,2) by (simp add: poll_rejected snackbar_open_def)
next
  obtain st1 where st1: "poll_cycles (map Rejected es) (pl, st) = Some (pl, st1)"
    "length (snackbar st1) = length (snackbar st) + length es"
    using poll_cycles_failures [OF assms, of es st] by blast
  let ?st' = "st1\<lparr>assignments := Defined (response_assignments v),
         currentAssignment := Defined (response_currentAssignment v)\<rparr>"
  have "poll_cycles (map Rejected es @ [Resolved v]) (pl, st) = Some (pl, ?st')"
    using st1(1) assms by (simp add: poll_cycles_append timer_fires_resolved)
  then show "\<exists>st'. poll_cycles (map Rejected es @ [Resolved v]) (pl, st) = Some (pl, st') \<and>
                assignments st' = Defined (response_assignments v) \<and>
                currentAssignment st' = Defined (response_currentAssignment v) \<and>
                length (snackbar st') = length (snackbar st) + length es"
    using st1(2) by simp
qed

text \<open>The theorem at a provider with a snapshot: two failed polls, then a successful one.\<close>

theorem failed_poll_resets_and_retries_witness:
  "currentPath activePoller = Some ''hw1'' \<and> \<not> cancelled activePoller \<and>
   0 < pending activePoller \<and>
   assignments (snd (poll (Rejected ()) activePoller fetchedProvider)) = Undefined \<and>
   pending (fst (poll (Rejected ()) activePoller fetchedProvider)) = 2 \<and>
   map_option (assignments \<circ> snd)
     (poll_cycles [Rejected (), Rejected (), Resolved fetchedResponse]
        (activePoller, fetchedProvider)) = Some (Defined (Some [3, 4])) \<and>
   map_option (currentAssignment \<circ> snd)
     (poll_cycles [Rejected (), Rejected (), Resolved fetchedResponse]
        (activePoller, fetchedProvider)) = Some (Defined (Some 3))"
proof -
  have h: "currentPath activePoller = Some ''hw1''" "\<not> cancelled activePoller"
    "0 < pending activePoller"
    by (simp_all add: activePoller_def)
  have r: "response_assignments fetchedResponse = Some [3, 4]"
    "response_currentAssignment fetchedResponse = Some 3"
    by (simp_all add: fetchedResponse_def)
  have p: "pending activePoller = 1" by (simp add: activePoller_def)
  show ?thesis
    using failed_poll_resets_and_retries
            [OF h, of "()" fetchedProvider "[(), ()]" fetchedResponse] h r p
    by auto
qed

text \<open>
  C3. Once the \<open>cancelled\<close> flag of a closure is set, the rest of its \<open>poll\<close> writes
  neither slot, whatever state the provider is in by then and however the fetch settles,
  and schedules nothing; a fetch that resolves late leaves the whole state as it is. A
  change of the path sets the flag of the previous closure.
\<close>

theorem cancelled_poll_writes_nothing:
  fixes outcome :: "('e, 'a GetAssignmentsResponse) settled" and st st0 :: "'a provider"
  assumes "cancelled pl"
  shows "assignments (snd (poll outcome pl st)) = assignments st \<and>
         currentAssignment (snd (poll outcome pl st)) = currentAssignment st \<and>
         fst (poll outcome pl st) = pl \<and>
         poll (Resolved v :: ('e, 'a GetAssignmentsResponse) settled) pl st = (pl, st) \<and>
         cancelled (fst (currentPath_changed newPath old st0))"
  using assms
  by (cases outcome)
     (simp_all add: poll_def poll_fetch_def poll_write_def currentPath_changed_def
        poll_effect_cleanup_def split: option.splits)

text \<open>
  The theorem at a fetch started under one path that resolves after the path has
  changed: the slots of the new path, reset by the new effect run, stay as they are.
\<close>

theorem cancelled_poll_writes_nothing_witness:
  "cancelled (fst (currentPath_changed (Some ''hw2'') activePoller fetchedProvider)) \<and>
   poll (Resolved fetchedResponse :: (unit, nat GetAssignmentsResponse) settled)
     (fst (currentPath_changed (Some ''hw2'') activePoller fetchedProvider))
     (snd (snd (currentPath_changed (Some ''hw2'') activePoller fetchedProvider))) =
   (activePoller\<lparr>cancelled := True\<rparr>,
    fetchedProvider\<lparr>assignments := Undefined, currentAssignment := Undefined\<rparr>)"
proof -
  have c: "cancelled (fst (currentPath_changed (Some ''hw2'') activePoller fetchedProvider))"
    by (simp add: currentPath_changed_def poll_effect_cleanup_def)
  have e: "fst (currentPath_changed (Some ''hw2'') activePoller fetchedProvider) =
             activePoller\<lparr>cancelled := True\<rparr>"
    "snd (snd (currentPath_changed (Some ''hw2'') activePoller fetchedProvider)) =
             fetchedProvider\<lparr>assignments := Undefined, currentAssignment := Undefined\<rparr>"
    by (simp_all add: currentPath_changed_def poll_effect_cleanup_def poll_effect_def)
  show ?thesis
    using cancelled_poll_writes_nothing
            [OF c, where v = fetchedResponse and outcome = "Resolved fetchedResponse :: (unit, nat GetAssignmentsResponse) settled"
               and st = "fetchedProvider\<lparr>assignments := Undefined, currentAssignment := Undefined\<rparr>"
               and newPath = "Some ''hw2''" and old = activePoller and ?st0.0 = fetchedProvider]
          c e
    by simp
qed

section \<open>The push channel\<close>

text \<open>
  C4. A mounted provider whose socket is open is unmounted, and the close of the socket
  is then delivered. The cleanup has put the socket in \<open>CLOSING\<close> and left the
  \<open>triggerReconnect\<close> listener on it, so the close constructs a second socket, which is
  connecting while the component is unmounted. On a mounted provider the close of the
  socket constructs the new socket at once as well; no timeout is set in either case, and
  \<open>WEBSOCKET_REOPEN_DELAY\<close> is not used.
\<close>

theorem reconnect_after_unmount:
  "unmount (open_event 0 mount) =
     \<lparr>sockets = [\<lparr>readyState = CLOSING, closeListeners = 1\<rparr>],
      ws = 0, mounted = False, timeouts = []\<rparr> \<and>
   close_event 0 (unmount (open_event 0 mount)) =
     \<lparr>sockets = [\<lparr>readyState = CLOSED, closeListeners = 1\<rparr>,
                 \<lparr>readyState = CONNECTING, closeListeners = 0\<rparr>],
      ws = 0, mounted = False, timeouts = []\<rparr> \<and>
   liveSockets (close_event 0 (unmount (open_event 0 mount))) = 1 \<and>
   close_event 0 (open_event 0 mount) =
     \<lparr>sockets = [\<lparr>readyState = CLOSED, closeListeners = 1\<rparr>,
                 \<lparr>readyState = CONNECTING, closeListeners = 1\<rparr>],
      ws = 1, mounted = True, timeouts = []\<rparr>"
  by (simp add: mount_def unmount_def open_event_def close_event_def ws_effect_def
      ws_effect_cleanup_def socket_close_def triggerReconnect_def new_WebSocket_def setWs_def
      liveSockets_def)


section \<open>Date edits\<close>

lemma available_edit_accepted:
  "\<not> availableDate_refused nd a v \<Longrightarrow>
   availableDate_onChange nd tz a v f =
     onAvailableDateChanged tz a \<lparr>target = availableDateInput\<rparr> v (f\<lparr>availableDateControlled := v\<rparr>)"
  by (simp add: availableDate_onChange_def availableDate_refused_def)

lemma due_edit_accepted:
  "\<not> dueDate_refused nd a v \<Longrightarrow>
   dueDate_onChange nd tz a v f =
     onDueDateChanged tz a \<lparr>target = dueDateInput\<rparr> v (f\<lparr>dueDateControlled := v\<rparr>)"
  by (simp add: dueDate_onChange_def dueDate_refused_def)

text \<open>
  Three edits of one field in one window do not produce exactly one request: three edits
  of the available date, and the end of the window, send two requests, the first with the
  first value and the second with the last.
\<close>

theorem burst_counterexample:
  "requests
     (availableDate_window_ends addLocalTimezone_sample oneDayAssignment
        (availableDate_onChange new_Date_local_sample addLocalTimezone_sample oneDayAssignment
           ''2024-01-01T03:00''
           (availableDate_onChange new_Date_local_sample addLocalTimezone_sample oneDayAssignment
              ''2024-01-01T02:00''
              (availableDate_onChange new_Date_local_sample addLocalTimezone_sample
                 oneDayAssignment ''2024-01-01T01:00'' freshForm)))) =
   [\<lparr>assignmentName = ''hw1'', data = available_date (Some ''2024-01-01T01:00+00:00'')\<rparr>,
    \<lparr>assignmentName = ''hw1'', data = available_date (Some ''2024-01-01T03:00+00:00'')\<rparr>]"
  by (simp add: availableDate_window_ends_def availableDate_onChange_def
      onAvailableDateChanged_def debounced_call_def debounced_expire_def debounced_idle_def
      send_def freshForm_def oneDayAssignment_def availableDate_update_def
      addLocalTimezone_sample_def new_Date_local_sample_def date_ge_def target_value_def)

text \<open>
  C6. From idle debouncers, three edits of one field that pass the handler's check, made
  within one window, produce exactly two requests: the first edit is sent at once, nothing
  more is sent while the window lasts, and when the window ends one request is sent with
  the value the input holds then. That is the last edit's value; when the context has
  delivered an assignment in between, it is the date of that assignment instead. One
  edit of each of the two fields within the window produces two requests, one per field,
  and none when the windows end.
\<close>

theorem burst_sends_first_and_last:
  assumes "availableDebounce f = debounced_idle" and "dueDebounce f = debounced_idle"
    and "\<not> availableDate_refused nd a v1" and "\<not> availableDate_refused nd a v2"
    and "\<not> availableDate_refused nd a v3"
    and "\<not> dueDate_refused nd a w1" and "\<not> dueDate_refused nd a w2"
    and "\<not> dueDate_refused nd a w3"
  shows
   "requests (availableDate_onChange nd tz a v1 f) = requests f @ [availableDate_update tz a v1] \<and>
    requests (availableDate_onChange nd tz a v3 (availableDate_onChange nd tz a v2
                (availableDate_onChange nd tz a v1 f))) =
      requests f @ [availableDate_update tz a v1] \<and>
    requests (availableDate_window_ends tz a
                (availableDate_onChange nd tz a v3 (availableDate_onChange nd tz a v2
                   (availableDate_onChange nd tz a v1 f)))) =
      requests f @ [availableDate_update tz a v1, availableDate_update tz a v3] \<and>
    requests (availableDate_window_ends tz a'
                (assignment_refreshed fmt a'
                   (availableDate_onChange nd tz a v3 (availableDate_onChange nd tz a v2
                      (availableDate_onChange nd tz a v1 f))))) =
      requests f @ [availableDate_update tz a v1,
                    availableDate_update tz a' (formatDateToMui fmt (availableDate a'))] \<and>
    requests (dueDate_window_ends tz a
                (dueDate_onChange nd tz a w3 (dueDate_onChange nd tz a w2
                   (dueDate_onChange nd tz a w1 f)))) =
      requests f @ [dueDate_update tz a w1, dueDate_update tz a w3] \<and>
    requests (dueDate_window_ends tz a'
                (assignment_refreshed fmt a'
                   (dueDate_onChange nd tz a w3 (dueDate_onChange nd tz a w2
                      (dueDate_onChange nd tz a w1 f))))) =
      requests f @ [dueDate_update tz a w1,
                    dueDate_update tz a' (formatDateToMui fmt (dueDate a'))] \<and>
    requests (dueDate_onChange nd tz a w1 (availableDate_onChange nd tz a v1 f)) =
      requests f @ [availableDate_update tz a v1, dueDate_update tz a w1] \<and>
    requests (dueDate_window_ends tz a (availableDate_window_ends tz a
                (dueDate_onChange nd tz a w1 (availableDate_onChange nd tz a v1 f)))) =
      requests f @ [availableDate_update tz a v1, dueDate_update tz a w1]"
  using assms
  by (simp add: available_edit_accepted due_edit_accepted availableDate_window_ends_def
      onAvailableDateChanged_def debounced_call_def dueDate_window_ends_def
      onDueDateChanged_def debounced_expire_def debounced_idle_def send_def target_value_def
      assignment_refreshed_def)

text \<open>
  The theorem at a form with nothing edited yet: three edits of the due date, with and
  without the context delivering the assignment before the window ends.
\<close>

theorem burst_sends_first_and_last_witness:
  "availableDebounce freshForm = debounced_idle \<and> dueDebounce freshForm = debounced_idle \<and>
   requests
     (dueDate_window_ends addLocalTimezone_sample oneDayAssignment
        (dueDate_onChange new_Date_local_sample addLocalTimezone_sample oneDayAssignment
           ''2024-01-02T03:00''
           (dueDate_onChange new_Date_local_sample addLocalTimezone_sample oneDayAssignment
              ''2024-01-02T02:00''
              (dueDate_onChange new_Date_local_sample addLocalTimezone_sample oneDayAssignment
                 ''2024-01-02T01:00'' freshForm)))) =
   [\<lparr>assignmentName = ''hw1'', data = due_date (Some ''2024-01-02T01:00+00:00'')\<rparr>,
    \<lparr>assignmentName = ''hw1'', data = due_date (Some ''2024-01-02T03:00+00:00'')\<rparr>] \<and>
   requests
     (dueDate_window_ends addLocalTimezone_sample oneDayAssignment
        (assignment_refreshed moment_format_sample oneDayAssignment
           (dueDate_onChange new_Date_local_sample addLocalTimezone_sample oneDayAssignment
              ''2024-01-02T03:00''
              (dueDate_onChange new_Date_local_sample addLocalTimezone_sample oneDayAssignment
                 ''2024-01-02T02:00''
                 (dueDate_onChange new_Date_local_sample addLocalTimezone_sample
                    oneDayAssignment ''2024-01-02T01:00'' freshForm))))) =
   [\<lparr>assignmentName = ''hw1'', data = due_date (Some ''2024-01-02T01:00+00:00'')\<rparr>,
    \<lparr>assignmentName = ''hw1'', data = due_date (Some ''2024-01-02T00:00+00:00'')\<rparr>]"
proof -
  have h: "availableDebounce freshForm = debounced_idle" "dueDebounce freshForm = debounced_idle"
    by (simp_all add: freshForm_def)
  have av: "\<not> availableDate_refused new_Date_local_sample oneDayAssignment ''2024-01-01T01:00''"
    "\<not> availableDate_refused new_Date_local_sample oneDayAssignment ''2024-01-01T02:00''"
    "\<not> availableDate_refused new_Date_local_sample oneDayAssignment ''2024-01-01T03:00''"
    by (simp_all add: availableDate_refused_def oneDayAssignment_def new_Date_local_sample_def
        date_ge_def)
  have du: "\<not> dueDate_refused new_Date_local_sample oneDayAssignment ''2024-01-02T01:00''"
    "\<not> dueDate_refused new_Date_local_sample oneDayAssignment ''2024-01-02T02:00''"
    "\<not> dueDate_refused new_Date_local_sample oneDayAssignment ''2024-01-02T03:00''"
    by (simp_all add: dueDate_refused_def oneDayAssignment_def new_Date_local_sample_def
        date_le_def)
  have r: "requests freshForm = []" by (simp add: freshForm_def)
  have m: "formatDateToMui moment_format_sample (dueDate oneDayAssignment) = ''2024-01-02T00:00''"
    by (simp add: formatDateToMui_def moment_format_sample_def oneDayAssignment_def)
  show ?thesis
    using burst_sends_first_and_last
            [OF h av du, where tz = addLocalTimezone_sample and a' = oneDayAssignment
               and fmt = moment_format_sample] h r m
    by (simp add: dueDate_update_def oneDayAssignment_def addLocalTimezone_sample_def)
qed

text \<open>
  C7. An edit of the due date to a date at or before the assignment's available date, and
  an edit of the available date to a date at or after the assignment's due date, change
  nothing: the controlled value stays, the debounced callback is not called, and no
  request is sent, then or when a window ends. The dates compared with are those of the
  assignment held in the context.
\<close>

theorem misordered_edit_rejected:
  "(availableDate a = Some available \<and> date_le (nd v) available \<longrightarrow>
      dueDate_onChange nd tz a v f = f) \<and>
   (dueDate a = Some due \<and> date_ge (nd v) due \<longrightarrow>
      availableDate_onChange nd tz a v f = f)"
  by (simp add: availableDate_onChange_def dueDate_onChange_def)

text \<open>
  The theorem at an assignment open for one day: a due date equal to the available date
  and an available date equal to the due date are both refused.
\<close>

theorem misordered_edit_rejected_witness:
  "availableDate oneDayAssignment = Some (Time_Value 1704067200000) \<and>
   date_le (new_Date_sample ''2024-01-01T00:00:00Z'') (Time_Value 1704067200000) \<and>
   dueDate_onChange new_Date_sample addLocalTimezone_sample oneDayAssignment
     ''2024-01-01T00:00:00Z'' freshForm = freshForm \<and>
   dueDate oneDayAssignment = Some (Time_Value 1704153600000) \<and>
   date_ge (new_Date_sample ''2024-01-02T00:00:00Z'') (Time_Value 1704153600000) \<and>
   availableDate_onChange new_Date_sample addLocalTimezone_sample oneDayAssignment
     ''2024-01-02T00:00:00Z'' freshForm = freshForm"
proof -
  have h1: "availableDate oneDayAssignment = Some (Time_Value 1704067200000)"
    "date_le (new_Date_sample ''2024-01-01T00:00:00Z'') (Time_Value 1704067200000)"
    by (simp_all add: oneDayAssignment_def new_Date_sample_def date_le_def)
  have h2: "dueDate oneDayAssignment = Some (Time_Value 1704153600000)"
    "date_ge (new_Date_sample ''2024-01-02T00:00:00Z'') (Time_Value 1704153600000)"
    by (simp_all add: oneDayAssignment_def new_Date_sample_def date_ge_def)
  have "dueDate_onChange new_Date_sample addLocalTimezone_sample oneDayAssignment
          ''2024-01-01T00:00:00Z'' freshForm = freshForm"
    using misordered_edit_rejected
            [where a = oneDayAssignment and available = "Time_Value 1704067200000"
               and nd = new_Date_sample and v = "''2024-01-01T00:00:00Z''"
               and tz = addLocalTimezone_sample and f = freshForm] h1
    by simp
  moreover have "availableDate_onChange new_Date_sample addLocalTimezone_sample oneDayAssignment
          ''2024-01-02T00:00:00Z'' freshForm = freshForm"
    using misordered_edit_rejected
            [where a = oneDayAssignment and due = "Time_Value 1704153600000"
               and nd = new_Date_sample and v = "''2024-01-02T00:00:00Z''"
               and tz = addLocalTimezone_sample and f = freshForm] h2
    by simp
  ultimately show ?thesis using h1 h2 by simp
qed


section \<open>The submit form\<close>

text \<open>
  The reason shown for a closed assignment is not always the past-due message: while a
  submission is uploading it is the uploading message, and for an assignment flagged
  closed and not available it is the not-available message.
\<close>

theorem closed_reason_counterexample:
  "isClosed closedAssignment \<and>
   disabledReason True ''final version'' (Defined (Some closedAssignment)) (Defined [()]) =
     Inr (Defined ''Currently uploading submission'') \<and>
   disabledReason False ''final version''
     (Defined (Some (closedAssignment\<lparr>isAvailable := False\<rparr>))) (Defined [()]) =
     Inr (Defined ''Assignment is not available for you to work on yet'')"
  by (simp add: disabledReason_def disabled_def present_def closedAssignment_def)

text \<open>
  C8. For an assignment with \<open>isClosed\<close> true the submit action is disabled.
  The reason shown is the past-due message when no submission is uploading, the
  assignment is available and the course is loaded; it is the uploading message while a
  submission is uploading, and the not-available message when none is uploading and the
  assignment is not available.
\<close>

theorem closed_assignment_disabled:
  "present assignment = Some a \<and> isClosed a \<longrightarrow>
     disabled uploading summary assignment \<and>
     (\<not> uploading \<and> isAvailable a \<longrightarrow>
        disabledReason uploading summary assignment (Defined staff) =
          Inr (Defined (''Past due. Please contact your instructor'' @
                 (if length staff > 1 then ''s'' else '''') @ '' if you need an extension''))) \<and>
     (uploading \<longrightarrow>
        disabledReason uploading summary assignment (Defined staff) =
          Inr (Defined ''Currently uploading submission'')) \<and>
     (\<not> uploading \<and> \<not> isAvailable a \<longrightarrow>
        disabledReason uploading summary assignment (Defined staff) =
          Inr (Defined ''Assignment is not available for you to work on yet''))"
  by (simp add: disabled_def disabledReason_def)

text \<open>
  The theorem at an available, closed assignment of a course with one instructor, with a
  summary entered and nothing uploading, then while uploading, then flagged not available.
\<close>

theorem closed_assignment_disabled_witness:
  "present (Defined (Some closedAssignment)) = Some closedAssignment \<and>
   isClosed closedAssignment \<and> isAvailable closedAssignment \<and>
   disabled False ''final version'' (Defined (Some closedAssignment)) \<and>
   disabledReason False ''final version'' (Defined (Some closedAssignment)) (Defined [()]) =
     Inr (Defined ''Past due. Please contact your instructor if you need an extension'') \<and>
   disabledReason True ''final version'' (Defined (Some closedAssignment)) (Defined [()]) =
     Inr (Defined ''Currently uploading submission'') \<and>
   disabledReason False ''final version''
     (Defined (Some (closedAssignment\<lparr>isAvailable := False\<rparr>))) (Defined [()]) =
     Inr (Defined ''Assignment is not available for you to work on yet'')"
proof -
  have h: "present (Defined (Some closedAssignment)) = Some closedAssignment"
    "isClosed closedAssignment" "isAvailable closedAssignment"
    by (simp_all add: present_def closedAssignment_def)
  have g: "present (Defined (Some (closedAssignment\<lparr>isAvailable := False\<rparr>))) =
             Some (closedAssignment\<lparr>isAvailable := False\<rparr>)"
    by (simp add: present_def)
  have 1: "disabled False ''final version'' (Defined (Some closedAssignment)) \<and>
           disabledReason False ''final version'' (Defined (Some closedAssignment)) (Defined [()]) =
             Inr (Defined ''Past due. Please contact your instructor if you need an extension'')"
    using closed_assignment_disabled
            [of "Defined (Some closedAssignment)" closedAssignment False "''final version''" "[()]"] h
    by simp
  have 2: "disabledReason True ''final version'' (Defined (Some closedAssignment)) (Defined [()]) =
             Inr (Defined ''Currently uploading submission'')"
    using closed_assignment_disabled
            [of "Defined (Some closedAssignment)" closedAssignment True "''final version''" "[()]"] h
    by simp
  have 3: "disabledReason False ''final version''
             (Defined (Some (closedAssignment\<lparr>isAvailable := False\<rparr>))) (Defined [()]) =
             Inr (Defined ''Assignment is not available for you to work on yet'')"
    using closed_assignment_disabled
            [of "Defined (Some (closedAssignment\<lparr>isAvailable := False\<rparr>))"
                "closedAssignment\<lparr>isAvailable := False\<rparr>" False "''final version''" "[()]"] g h
    by simp
  show ?thesis using h 1 2 3 by simp
qed

text \<open>
  C10. With a path to submit from: after a request that succeeds the summary and the
  description are empty and the success notification is shown; after a request that
  fails both hold what they held before, the error notification is the only one added;
  so for a form whose summary was entered, both are empty afterwards exactly when the
  request succeeded. Without a path no request is made and the form stays as it is.
\<close>

theorem submit_clears_iff_succeeds:
  fixes outcome :: "('e, unit) settled" and e :: 'e
  shows
  "(path = Some p \<and> p \<noteq> [] \<longrightarrow>
      (summaryText (submitAssignment path (Resolved () :: ('e, unit) settled) f) = [] \<and>
       descriptionText (submitAssignment path (Resolved () :: ('e, unit) settled) f) = [] \<and>
       snackbar (submitAssignment path (Resolved () :: ('e, unit) settled) f) =
         snackbar f @ [\<lparr>snack_type = Success, message = ''Successfully submitted assignment!''\<rparr>]) \<and>
      (summaryText (submitAssignment path (Rejected e) f) = summaryText f \<and>
       descriptionText (submitAssignment path (Rejected e) f) = descriptionText f \<and>
       snackbar (submitAssignment path (Rejected e) f) =
         snackbar f @ [\<lparr>snack_type = Error, message = ''Failed to submit assignment!''\<rparr>]) \<and>
      (summaryText f \<noteq> [] \<longrightarrow>
         (summaryText (submitAssignment path outcome f) = [] \<and>
          descriptionText (submitAssignment path outcome f) = []) = (outcome = Resolved ()))) \<and>
   (\<not> truthy path \<longrightarrow> submitAssignment path outcome f = f)"
  by (cases outcome)
     (auto simp add: submitAssignment_def submit_begin_def submit_settled_def snackbar_open_def
        truthy_def split: option.splits)

text \<open>The theorem at a filled form: a submission that fails, and one that succeeds.\<close>

theorem submit_clears_iff_succeeds_witness:
  "summaryText filledForm \<noteq> [] \<and>
   summaryText (submitAssignment (Some ''hw1'') (Rejected ()) filledForm) = ''final version'' \<and>
   descriptionText (submitAssignment (Some ''hw1'') (Rejected ()) filledForm) = ''all tasks done'' \<and>
   summaryText (submitAssignment (Some ''hw1'') (Resolved () :: (unit, unit) settled) filledForm) = [] \<and>
   descriptionText (submitAssignment (Some ''hw1'') (Resolved () :: (unit, unit) settled) filledForm) = [] \<and>
   submitAssignment None (Resolved () :: (unit, unit) settled) filledForm = filledForm"
proof -
  have h: "summaryText filledForm \<noteq> []" "summaryText filledForm = ''final version''"
    "descriptionText filledForm = ''all tasks done''"
    by (simp_all add: filledForm_def)
  have n: "\<not> truthy None" by (simp add: truthy_def)
  have "summaryText (submitAssignment (Some ''hw1'') (Rejected ()) filledForm) = ''final version'' \<and>
        descriptionText (submitAssignment (Some ''hw1'') (Rejected ()) filledForm) = ''all tasks done'' \<and>
        summaryText (submitAssignment (Some ''hw1'') (Resolved () :: (unit, unit) settled) filledForm) = [] \<and>
        descriptionText (submitAssignment (Some ''hw1'') (Resolved () :: (unit, unit) settled) filledForm) = []"
    using submit_clears_iff_succeeds
            [where path = "Some ''hw1''" and p = "''hw1''" and f = filledForm and e = "()"
               and outcome = "Resolved () :: (unit, unit) settled"] h
    by simp
  moreover have "submitAssignment None (Resolved () :: (unit, unit) settled) filledForm = filledForm"
    using submit_clears_iff_succeeds
            [where path = None and f = filledForm and outcome = "Resolved () :: (unit, unit) settled"] n
    by simp
  ultimately show ?thesis using h by simp
qed

end
